theory Spec2Isabelle
  imports Complex_Main
begin

section \<open>Python values and the operations the validator uses on them\<close>

text \<open>
  The questionnaire schema is a parsed JSON document: nested Python dicts, lists, strings,
  numbers, booleans and \<open>None\<close>. A dict is an association list (a schema has no repeated
  key inside one object). Python's \<open>int\<close> is unbounded; a Python \<open>float\<close> is idealised as
  an exact real number (no rounding, overflow or underflow). Strings are lists of
  characters, which agrees with Python's \<open>str\<close> on ASCII text.
\<close>

datatype json =
    JNull
  | JBool bool
  | JInt int
  | JFloat real
  | JStr string
  | JList "json list"
  | JDict "(string \<times> json) list"

text \<open>
  Every exception the modelled code can raise is a value; the class is kept.
  \<open>LibraryError\<close> stands for an exception of a library that has no class of its own.
\<close>

datatype py_error =
  KeyError | TypeError | AttributeError | ValueError | IndexError | OverflowError | LibraryError

definition bindE :: "py_error + 'a \<Rightarrow> ('a \<Rightarrow> py_error + 'b) \<Rightarrow> py_error + 'b" where
  "bindE m f = (case m of Inl e \<Rightarrow> Inl e | Inr x \<Rightarrow> f x)"

text \<open>\<open>bool(x)\<close>: the truth value Python gives a JSON value in \<open>if x\<close>, \<open>x and y\<close>, \<open>not x\<close>.\<close>

fun truthy :: "json \<Rightarrow> bool" where
  "truthy JNull = False"
| "truthy (JBool b) = b"
| "truthy (JInt i) = (i \<noteq> 0)"
| "truthy (JFloat r) = (r \<noteq> 0)"
| "truthy (JStr s) = (s \<noteq> [])"
| "truthy (JList xs) = (xs \<noteq> [])"
| "truthy (JDict d) = (d \<noteq> [])"

fun is_dict :: "json \<Rightarrow> bool" where
  "is_dict (JDict d) = True"
| "is_dict _ = False"

text \<open>\<open>isinstance(x, int)\<close>: Python's \<open>bool\<close> is a subclass of \<open>int\<close>.\<close>

fun is_int :: "json \<Rightarrow> bool" where
  "is_int (JInt i) = True"
| "is_int (JBool b) = True"
| "is_int _ = False"

text \<open>Lists and dicts are unhashable: they cannot be set elements or dict keys.\<close>

fun hashable :: "json \<Rightarrow> bool" where
  "hashable (JList xs) = False"
| "hashable (JDict d) = False"
| "hashable _ = True"

text \<open>The numeric value of a Python number (\<open>True\<close> is 1, \<open>False\<close> is 0).\<close>

fun num_of :: "json \<Rightarrow> real option" where
  "num_of (JBool b) = Some (if b then 1 else 0)"
| "num_of (JInt i) = Some (of_int i)"
| "num_of (JFloat r) = Some r"
| "num_of _ = None"

text \<open>
  \<open>a == b\<close>: numbers compare by value across \<open>bool\<close>, \<open>int\<close> and \<open>float\<close>, lists
  elementwise, dicts by their items whatever the order.
\<close>

fun py_eq :: "json \<Rightarrow> json \<Rightarrow> bool"
  and py_eq_list :: "json list \<Rightarrow> json list \<Rightarrow> bool"
  and py_eq_items :: "(string \<times> json) list \<Rightarrow> (string \<times> json) list \<Rightarrow> bool" where
  "py_eq (JList xs) b = (case b of JList ys \<Rightarrow> py_eq_list xs ys | _ \<Rightarrow> False)"
| "py_eq (JDict d) b =
     (case b of JDict e \<Rightarrow> length d = length e \<and> py_eq_items d e | _ \<Rightarrow> False)"
| "py_eq (JStr s) b = (b = JStr s)"
| "py_eq JNull b = (b = JNull)"
| "py_eq a b = (case num_of b of Some y \<Rightarrow> num_of a = Some y | None \<Rightarrow> False)"
| "py_eq_list [] ys = (ys = [])"
| "py_eq_list (x # xs) ys =
     (case ys of [] \<Rightarrow> False | y # ys' \<Rightarrow> py_eq x y \<and> py_eq_list xs ys')"
| "py_eq_items [] e = True"
| "py_eq_items ((k, v) # d) e =
     ((case map_of e k of None \<Rightarrow> False | Some w \<Rightarrow> py_eq v w) \<and> py_eq_items d e)"

text \<open>Strings compare by code point, lexicographically.\<close>

fun str_lt :: "string \<Rightarrow> string \<Rightarrow> bool" where
  "str_lt [] ys = (ys \<noteq> [])"
| "str_lt (x # xs) [] = False"
| "str_lt (x # xs) (y # ys) =
     ((of_char x :: nat) < of_char y \<or> (x = y \<and> str_lt xs ys))"

text \<open>
  \<open>a < b\<close>: defined between two numbers, two strings and two lists (at the first pair of
  unequal elements); every other pair of JSON values raises \<open>TypeError\<close>.
\<close>

fun py_lt :: "json \<Rightarrow> json \<Rightarrow> py_error + bool"
  and py_lt_list :: "json list \<Rightarrow> json list \<Rightarrow> py_error + bool" where
  "py_lt (JList xs) b = (case b of JList ys \<Rightarrow> py_lt_list xs ys | _ \<Rightarrow> Inl TypeError)"
| "py_lt (JStr s) b = (case b of JStr t \<Rightarrow> Inr (str_lt s t) | _ \<Rightarrow> Inl TypeError)"
| "py_lt a b =
     (case (num_of a, num_of b) of (Some x, Some y) \<Rightarrow> Inr (x < y) | _ \<Rightarrow> Inl TypeError)"
| "py_lt_list [] ys = Inr (ys \<noteq> [])"
| "py_lt_list (x # xs) ys =
     (case ys of [] \<Rightarrow> Inr False
      | y # ys' \<Rightarrow> if py_eq x y then py_lt_list xs ys' else py_lt x y)"

subsection \<open>Strings\<close>

primrec startswith :: "string \<Rightarrow> string \<Rightarrow> bool" where
  "startswith [] p = (p = [])"
| "startswith (c # cs) p = (case p of [] \<Rightarrow> True | d # ds \<Rightarrow> c = d \<and> startswith cs ds)"

text \<open>The least index at which \<open>key\<close> occurs in the string, if it occurs.\<close>

primrec find_sub :: "string \<Rightarrow> string \<Rightarrow> nat option" where
  "find_sub key [] = (if key = [] then Some 0 else None)"
| "find_sub key (c # cs) =
     (if startswith (c # cs) key then Some 0 else map_option Suc (find_sub key cs))"

text \<open>\<open>path.find(key)\<close>: the least index, or -1.\<close>

definition str_find :: "string \<Rightarrow> string \<Rightarrow> int" where
  "str_find s key = (case find_sub key s of None \<Rightarrow> - 1 | Some i \<Rightarrow> int i)"

text \<open>\<open>key in s\<close> for two strings.\<close>

definition str_contains :: "string \<Rightarrow> string \<Rightarrow> bool" where
  "str_contains s key = (find_sub key s \<noteq> None)"

text \<open>\<open>s[:e]\<close> and \<open>s[b:]\<close>: a negative bound counts from the end, and bounds are clamped.\<close>

definition slice_to :: "'a list \<Rightarrow> int \<Rightarrow> 'a list" where
  "slice_to s e = (if e < 0 then take (nat (int (length s) + e)) s else take (nat e) s)"

definition slice_from :: "'a list \<Rightarrow> int \<Rightarrow> 'a list" where
  "slice_from s b = (if b < 0 then drop (nat (int (length s) + b)) s else drop (nat b) s)"

subsection \<open>Dicts, membership, iteration\<close>

text \<open>\<open>d.get(k, default)\<close>: only a dict has the method.\<close>

fun py_get :: "json \<Rightarrow> string \<Rightarrow> json \<Rightarrow> py_error + json" where
  "py_get (JDict d) k dflt = Inr (case map_of d k of Some x \<Rightarrow> x | None \<Rightarrow> dflt)"
| "py_get _ k dflt = Inl AttributeError"

text \<open>\<open>d[k]\<close> for a string key \<open>k\<close>.\<close>

fun py_item :: "json \<Rightarrow> string \<Rightarrow> py_error + json" where
  "py_item (JDict d) k = (case map_of d k of Some x \<Rightarrow> Inr x | None \<Rightarrow> Inl KeyError)"
| "py_item _ k = Inl TypeError"

text \<open>
  \<open>x in c\<close>: a key of a dict (the candidate is hashed first), an element of a list, a
  substring of a string.
\<close>

fun py_in :: "json \<Rightarrow> json \<Rightarrow> py_error + bool" where
  "py_in x (JDict d) =
     (if hashable x then Inr (list_ex (\<lambda>(k, v). x = JStr k) d) else Inl TypeError)"
| "py_in x (JList ys) = Inr (list_ex (\<lambda>y. py_eq y x) ys)"
| "py_in x (JStr s) = (case x of JStr t \<Rightarrow> Inr (str_contains s t) | _ \<Rightarrow> Inl TypeError)"
| "py_in x _ = Inl TypeError"

text \<open>The elements a \<open>for\<close> loop visits: of a dict its keys, of a string its characters.\<close>

fun py_iter :: "json \<Rightarrow> py_error + json list" where
  "py_iter (JList xs) = Inr xs"
| "py_iter (JDict d) = Inr (map (\<lambda>(k, v). JStr k) d)"
| "py_iter (JStr s) = Inr (map (\<lambda>c. JStr [c]) s)"
| "py_iter _ = Inl TypeError"

fun py_len :: "json \<Rightarrow> py_error + nat" where
  "py_len (JList xs) = Inr (length xs)"
| "py_len (JDict d) = Inr (length d)"
| "py_len (JStr s) = Inr (length s)"
| "py_len _ = Inl TypeError"

text \<open>A Python \<open>set\<close> of hashable values, kept as the list of its distinct elements.\<close>

definition set_member :: "json \<Rightarrow> json list \<Rightarrow> py_error + bool" where
  "set_member x s = (if hashable x then Inr (list_ex (\<lambda>y. py_eq y x) s) else Inl TypeError)"

definition set_add :: "json \<Rightarrow> json list \<Rightarrow> json list" where
  "set_add x s = (if list_ex (\<lambda>y. py_eq y x) s then s else s @ [x])"

text \<open>\<open>xs.remove(x)\<close>: drops the first element equal to \<open>x\<close> (the code calls it only after
  \<open>x in xs\<close>).\<close>

fun list_remove :: "json \<Rightarrow> json list \<Rightarrow> json list" where
  "list_remove x [] = []"
| "list_remove x (y # ys) = (if py_eq y x then ys else y # list_remove x ys)"

section \<open>AnswerValidator\<close>

text \<open>
  An error record is the dict \<open>{"message": message, **context, "id": answer id}\<close>. A
  message built with \<open>str.format\<close> or an f-string is kept as its template and the values
  put in its placeholders, in order.
\<close>

datatype message = Text string | Format string "json list"

record error_record =
  err_message :: message
  err_context :: "(string \<times> json) list"
  err_id :: json

text \<open>
  The validator object. \<open>block\<close>, \<open>list_names\<close> and \<open>block_ids\<close> default to \<open>None\<close>.
  Method names lose their leading underscore.
\<close>

record validator =
  answer :: json
  block :: json
  list_names :: json
  block_ids :: json
  errors :: "error_record list"

definition MAX_NUMBER :: int where "MAX_NUMBER = 9999999999"
definition MIN_NUMBER :: int where "MIN_NUMBER = - 999999999"
definition MAX_DECIMAL_PLACES :: int where "MAX_DECIMAL_PLACES = 6"

definition DECIMAL_PLACES_UNDEFINED :: message where
  "DECIMAL_PLACES_UNDEFINED =
     Text (CHR 0x27 # ''decimal_places'' @ CHR 0x27 # '' must be defined and set to 2'')"
definition DECIMAL_PLACES_TOO_LONG :: message where
  "DECIMAL_PLACES_TOO_LONG = Text ''Number of decimal places is greater than system limit''"
definition INVALID_OFFSET_DATE :: message where
  "INVALID_OFFSET_DATE = Text ''The minimum offset date is greater than the maximum offset date''"
definition INVALID_SUGGESTION_URL :: message where
  "INVALID_SUGGESTION_URL = Text ''Suggestions url is invalid''"
definition LIST_NAME_MISSING :: message where
  "LIST_NAME_MISSING = Text ''List name defined in action params does not exist''"
definition BLOCK_ID_MISSING :: message where
  "BLOCK_ID_MISSING = Text ''Block id defined in action params does not exist''"
definition DEFAULT_ON_MANDATORY :: message where
  "DEFAULT_ON_MANDATORY = Text ''Default is being used with a mandatory answer''"
definition MINIMUM_LESS_THAN_LIMIT :: message where
  "MINIMUM_LESS_THAN_LIMIT = Text ''Minimum value is less than system limit''"
definition MAXIMUM_GREATER_THAN_LIMIT :: message where
  "MAXIMUM_GREATER_THAN_LIMIT = Text ''Maximum value is greater than system limit''"

text \<open>
  \<open>options\<close> is a cached property of the answer, which is never modified, so the cache
  cannot be observed.
\<close>

definition options :: "validator \<Rightarrow> py_error + json" where
  "options v = py_get (answer v) ''options'' (JList [])"

definition add_error ::
  "validator \<Rightarrow> message \<Rightarrow> (string \<times> json) list \<Rightarrow> py_error + validator" where
  "add_error v msg ctx =
     bindE (py_item (answer v) ''id'') (\<lambda>i.
       Inr (v\<lparr>errors := errors v @ [\<lparr>err_message = msg, err_context = ctx, err_id = i\<rparr>]\<rparr>))"

subsection \<open>Duplicate options\<close>

fun duplicate_options_loop ::
  "json list \<Rightarrow> json list \<Rightarrow> json list \<Rightarrow> message list \<Rightarrow> py_error + message list" where
  "duplicate_options_loop [] labels vals errs = Inr errs"
| "duplicate_options_loop (opt # rest) labels vals errs =
     bindE (py_item opt ''label'') (\<lambda>label.
       if is_dict label then duplicate_options_loop rest labels vals errs
       else
         bindE (set_member label labels) (\<lambda>label_seen.
         bindE (py_item opt ''value'') (\<lambda>val.
         bindE (set_member val vals) (\<lambda>val_seen.
           duplicate_options_loop rest (set_add label labels) (set_add val vals)
             (errs
              @ (if label_seen then [Format ''Duplicate label found - {}'' [label]] else [])
              @ (if val_seen then [Format ''Duplicate value found - {}'' [val]] else []))))))"

definition validate_duplicate_options :: "validator \<Rightarrow> py_error + message list" where
  "validate_duplicate_options v =
     bindE (options v) (\<lambda>os. bindE (py_iter os) (\<lambda>opts.
       duplicate_options_loop opts [] [] []))"

subsection \<open>Labels and values\<close>

fun labels_and_values_loop ::
  "json \<Rightarrow> json list \<Rightarrow> message list \<Rightarrow> py_error + message list" where
  "labels_and_values_loop a [] errs = Inr errs"
| "labels_and_values_loop a (opt # rest) errs =
     bindE (py_item opt ''label'') (\<lambda>label0.
     bindE (py_in (JStr ''text_plural'') label0) (\<lambda>plural.
       if plural then labels_and_values_loop a rest errs
       else
         bindE (case label0 of JStr s \<Rightarrow> Inr label0 | _ \<Rightarrow> py_item label0 ''text'') (\<lambda>label.
         bindE (py_item opt ''value'') (\<lambda>val.
           if \<not> py_eq label val then
             bindE (py_item a ''id'') (\<lambda>i.
               labels_and_values_loop a rest
                 (errs @ [Format
                    ''Found mismatching answer value for label: {} in answer id: {}''
                    [label, i]]))
           else labels_and_values_loop a rest errs))))"

definition validate_labels_and_values_match :: "validator \<Rightarrow> py_error + message list" where
  "validate_labels_and_values_match v =
     bindE (options v) (\<lambda>os. bindE (py_iter os) (\<lambda>opts.
       labels_and_values_loop (answer v) opts []))"

subsection \<open>Actions of options\<close>

text \<open>One pass of the loop body: \<open>continue\<close> leaves the validator as it is.\<close>

definition answer_action_step :: "validator \<Rightarrow> json \<Rightarrow> py_error + validator" where
  "answer_action_step v opt =
     bindE (py_get opt ''action'' (JDict [])) (\<lambda>action.
     bindE (py_get action ''params'' JNull) (\<lambda>action_params.
       if \<not> truthy action_params then Inr v
       else
         bindE (py_get action_params ''list_name'' JNull) (\<lambda>list_name.
         bindE (if truthy list_name
                then bindE (py_in list_name (list_names v)) (\<lambda>known.
                       if \<not> known
                       then add_error v LIST_NAME_MISSING [(''list_name'', list_name)]
                       else Inr v)
                else Inr v) (\<lambda>v1.
         bindE (py_get action_params ''block_id'' JNull) (\<lambda>block_id.
           if truthy block_id
           then bindE (py_in block_id (block_ids v1)) (\<lambda>known.
                  if \<not> known
                  then add_error v1 BLOCK_ID_MISSING [(''block_id'', block_id)]
                  else Inr v1)
           else Inr v1)))))"

fun answer_actions_loop :: "validator \<Rightarrow> json list \<Rightarrow> py_error + validator" where
  "answer_actions_loop v [] = Inr v"
| "answer_actions_loop v (opt # rest) =
     bindE (answer_action_step v opt) (\<lambda>v1. answer_actions_loop v1 rest)"

definition validate_answer_actions :: "validator \<Rightarrow> py_error + validator" where
  "validate_answer_actions v =
     bindE (options v) (\<lambda>os. bindE (py_iter os) (\<lambda>opts. answer_actions_loop v opts))"

subsection \<open>Routing over the options of an answer\<close>

text \<open>\<open>k in x.keys()\<close>: only a dict has the method.\<close>

fun keys_has :: "json \<Rightarrow> string \<Rightarrow> py_error + bool" where
  "keys_has (JDict d) k = Inr (map_of d k \<noteq> None)"
| "keys_has _ k = Inl AttributeError"

fun has_default_route_loop :: "json list \<Rightarrow> py_error + bool" where
  "has_default_route_loop [] = Inr False"
| "has_default_route_loop (rule # rest) =
     bindE (py_in (JStr ''goto'') rule) (\<lambda>has_goto.
       if \<not> has_goto then Inr True
       else
         bindE (py_item rule ''goto'') (\<lambda>goto.
         bindE (keys_has goto ''when'') (\<lambda>has_when.
           if \<not> has_when then Inr True else has_default_route_loop rest)))"

definition has_default_route :: "validator \<Rightarrow> py_error + bool" where
  "has_default_route v =
     bindE (py_item (block v) ''routing_rules'') (\<lambda>rr.
     bindE (py_iter rr) has_default_route_loop)"

text \<open>\<open>[option["value"] for option in self.options]\<close>\<close>

fun option_values_of :: "json list \<Rightarrow> py_error + json list" where
  "option_values_of [] = Inr []"
| "option_values_of (opt # rest) =
     bindE (py_item opt ''value'') (\<lambda>x.
     bindE (option_values_of rest) (\<lambda>xs. Inr (x # xs)))"

text \<open>The loop over one \<open>when\<close> clause; it strikes the routed values off \<open>option_values\<close>.\<close>

fun when_loop :: "json \<Rightarrow> json list \<Rightarrow> json list \<Rightarrow> py_error + json list" where
  "when_loop a [] option_values = Inr option_values"
| "when_loop a (w # rest) option_values =
     bindE (py_in (JStr ''id'') w) (\<lambda>has_id.
       if \<not> has_id then when_loop a rest option_values
       else
         bindE (py_in (JStr ''value'') w) (\<lambda>has_value.
           if \<not> has_value then when_loop a rest option_values
           else
             bindE (py_item w ''id'') (\<lambda>wid.
             bindE (py_item a ''id'') (\<lambda>aid.
               if \<not> py_eq wid aid then when_loop a rest option_values
               else
                 bindE (py_item w ''value'') (\<lambda>wv.
                   if list_ex (\<lambda>y. py_eq y wv) option_values
                   then when_loop a rest (list_remove wv option_values)
                   else when_loop a rest option_values)))))"

fun routing_rules_loop :: "json \<Rightarrow> json list \<Rightarrow> json list \<Rightarrow> py_error + json list" where
  "routing_rules_loop a [] option_values = Inr option_values"
| "routing_rules_loop a (rule # rest) option_values =
     bindE (py_in (JStr ''goto'') rule) (\<lambda>has_goto.
     bindE (if has_goto
            then bindE (py_item rule ''goto'') (\<lambda>goto. keys_has goto ''when'')
            else Inr False) (\<lambda>has_when.
       if has_when then
         bindE (py_item rule ''goto'') (\<lambda>goto.
         bindE (py_item goto ''when'') (\<lambda>when_clause.
         bindE (py_iter when_clause) (\<lambda>whens.
         bindE (when_loop a whens option_values) (\<lambda>option_values1.
           routing_rules_loop a rest option_values1))))
       else routing_rules_loop a rest []))"

text \<open>The guard of the method: \<open>and\<close> stops at the first falsy operand.\<close>

definition routing_applies :: "validator \<Rightarrow> py_error + bool" where
  "routing_applies v =
     (if \<not> truthy (block v) then Inr False
      else
        bindE (py_in (JStr ''routing_rules'') (block v)) (\<lambda>has_rules.
          if \<not> has_rules then Inr False
          else
            bindE (py_item (block v) ''routing_rules'') (\<lambda>rr.
              if \<not> truthy rr then Inr False
              else bindE (options v) (\<lambda>os. Inr (truthy os)))))"

definition validate_routing_on_answer_options :: "validator \<Rightarrow> py_error + message list" where
  "validate_routing_on_answer_options v =
     bindE (routing_applies v) (\<lambda>applies.
       if \<not> applies then Inr []
       else
         bindE (options v) (\<lambda>os.
         bindE (py_iter os) (\<lambda>opts.
         bindE (option_values_of opts) (\<lambda>option_values0.
         bindE (py_item (block v) ''routing_rules'') (\<lambda>rr.
         bindE (py_iter rr) (\<lambda>rules.
         bindE (routing_rules_loop (answer v) rules option_values0) (\<lambda>option_values.
         bindE (py_len os) (\<lambda>n.
         bindE (py_item (answer v) ''mandatory'') (\<lambda>mandatory.
         bindE (if mandatory = JBool False
                then bindE (has_default_route v) (\<lambda>has_default. Inr (\<not> has_default))
                else Inr False) (\<lambda>no_default.
         bindE (if no_default
                then bindE (py_item (answer v) ''id'') (\<lambda>i.
                       Inr [Format ''Default route not defined for optional question [{}]'' [i]])
                else Inr []) (\<lambda>errs1.
         bindE (if option_values \<noteq> [] \<and> length option_values \<noteq> n
                then bindE (py_item (answer v) ''id'') (\<lambda>i.
                       Inr [Format
                         (''Routing rule not defined for all answers or default not defined ''
                          @ ''for answer [{}] missing options {}'')
                         [i, JList option_values]])
                else Inr []) (\<lambda>errs2.
           Inr (errs1 @ errs2)))))))))))))"

subsection \<open>Decimal places, system limits, defaults\<close>

definition are_decimal_places_valid :: "validator \<Rightarrow> py_error + bool" where
  "are_decimal_places_valid v =
     bindE (py_in (JStr ''calculated'') (answer v)) (\<lambda>calculated.
       if calculated then
         bindE (py_in (JStr ''decimal_places'') (answer v)) (\<lambda>has_places.
           if has_places
           then bindE (py_item (answer v) ''decimal_places'') (\<lambda>d. Inr (py_eq d (JInt 2)))
           else Inr False)
       else Inr True)"

text \<open>\<open>self.answer.get(bound, {}).get("value", dflt)\<close>\<close>

definition bound_value :: "validator \<Rightarrow> string \<Rightarrow> json \<Rightarrow> py_error + json" where
  "bound_value v bound dflt =
     bindE (py_get (answer v) bound (JDict [])) (\<lambda>b. py_get b ''value'' dflt)"

text \<open>\<open>isinstance(x, int) and x < limit\<close>, and the same with \<open>>\<close>.\<close>

fun int_below :: "json \<Rightarrow> int \<Rightarrow> bool" where
  "int_below (JInt i) limit = (i < limit)"
| "int_below (JBool b) limit = ((if b then 1 else 0) < limit)"
| "int_below _ limit = False"

fun int_above :: "json \<Rightarrow> int \<Rightarrow> bool" where
  "int_above (JInt i) limit = (i > limit)"
| "int_above (JBool b) limit = ((if b then 1 else 0) > limit)"
| "int_above _ limit = False"

definition validate_numeric_answer_value :: "validator \<Rightarrow> py_error + validator" where
  "validate_numeric_answer_value v =
     bindE (bound_value v ''minimum'' (JInt 0)) (\<lambda>min_value.
     bindE (bound_value v ''maximum'' (JInt 0)) (\<lambda>max_value.
     bindE (if int_below min_value MIN_NUMBER
            then add_error v MINIMUM_LESS_THAN_LIMIT
                   [(''value'', min_value), (''limit'', JInt MIN_NUMBER)]
            else Inr v) (\<lambda>v1.
       if int_above max_value MAX_NUMBER
       then add_error v1 MAXIMUM_GREATER_THAN_LIMIT
              [(''value'', max_value), (''limit'', JInt MAX_NUMBER)]
       else Inr v1)))"

definition validate_numeric_answer_decimals :: "validator \<Rightarrow> py_error + validator" where
  "validate_numeric_answer_decimals v =
     bindE (py_get (answer v) ''decimal_places'' (JInt 0)) (\<lambda>decimal_places.
     bindE (py_lt (JInt MAX_DECIMAL_PLACES) decimal_places) (\<lambda>too_long.
       if too_long
       then add_error v DECIMAL_PLACES_TOO_LONG
              [(''decimal_places'', decimal_places), (''limit'', JInt MAX_DECIMAL_PLACES)]
       else Inr v))"

definition validate_numeric_default :: "validator \<Rightarrow> py_error + validator" where
  "validate_numeric_default v =
     bindE (py_get (answer v) ''mandatory'' JNull) (\<lambda>mandatory.
       if truthy mandatory then
         bindE (py_get (answer v) ''default'' JNull) (\<lambda>dflt.
           if dflt \<noteq> JNull then add_error v DEFAULT_ON_MANDATORY [] else Inr v)
       else Inr v)"

subsection \<open>Numeric ranges\<close>

text \<open>
  The entry \<open>get_numeric_range_values\<close> returns, a dict with the keys \<open>min\<close>, \<open>max\<close>,
  \<open>decimal_places\<close>, \<open>min_referred\<close>, \<open>max_referred\<close> and \<open>default\<close>. \<open>None\<close> in \<open>min\<close> or
  \<open>max\<close> is the sentinel of a reference that could not be resolved.
\<close>

record range_entry =
  re_min :: json
  re_max :: json
  re_decimal_places :: json
  re_min_referred :: json
  re_max_referred :: json
  re_default :: json

text \<open>
  \<open>answer_ranges\<close>: the table from answer ids to entries, filled by the caller in document
  order. Keys are answer ids and are compared as JSON values.
\<close>

type_synonym range_table = "json \<Rightarrow> range_entry option"

text \<open>\<open>answer_ranges.get(k)\<close> and \<open>answer_ranges[k]\<close>: the key is hashed first.\<close>

definition table_get :: "range_table \<Rightarrow> json \<Rightarrow> py_error + range_entry option" where
  "table_get t k = (if hashable k then Inr (t k) else Inl TypeError)"

definition table_item :: "range_table \<Rightarrow> json \<Rightarrow> py_error + range_entry" where
  "table_item t k =
     (if hashable k then (case t k of Some e \<Rightarrow> Inr e | None \<Rightarrow> Inl KeyError)
      else Inl TypeError)"

definition get_numeric_value :: "json \<Rightarrow> json \<Rightarrow> range_table \<Rightarrow> py_error + json" where
  "get_numeric_value defined_value system_default answer_ranges =
     (if \<not> is_dict defined_value then Inr defined_value
      else
        bindE (py_in (JStr ''source'') defined_value) (\<lambda>has_source.
        bindE (if has_source
               then bindE (py_item defined_value ''source'') (\<lambda>src.
                      Inr (py_eq src (JStr ''answers'')))
               else Inr False) (\<lambda>from_answers.
          if from_answers then
            bindE (py_item defined_value ''identifier'') (\<lambda>identifier.
            bindE (table_get answer_ranges identifier) (\<lambda>referred_answer.
              case referred_answer of
                None \<Rightarrow> Inr JNull
              | Some r \<Rightarrow> if re_default r \<noteq> JNull then Inr system_default
                          else Inr system_default))
          else Inr system_default)))"

text \<open>\<open>1 / 10 ** decimal_places\<close>\<close>

fun unit_of_places :: "json \<Rightarrow> py_error + real" where
  "unit_of_places (JInt d) = Inr (1 / 10 powi d)"
| "unit_of_places (JBool b) = Inr (1 / 10 powi (if b then 1 else 0))"
| "unit_of_places (JFloat r) = Inr (1 / 10 powr r)"
| "unit_of_places _ = Inl TypeError"

text \<open>\<open>x + u\<close> and \<open>x - u\<close> for a float \<open>u\<close>: \<open>x\<close> has to be a number.\<close>

definition add_float :: "json \<Rightarrow> real \<Rightarrow> py_error + json" where
  "add_float x u = (case num_of x of Some r \<Rightarrow> Inr (JFloat (r + u)) | None \<Rightarrow> Inl TypeError)"

definition sub_float :: "json \<Rightarrow> real \<Rightarrow> py_error + json" where
  "sub_float x u = (case num_of x of Some r \<Rightarrow> Inr (JFloat (r - u)) | None \<Rightarrow> Inl TypeError)"

definition get_answer_minimum ::
  "json \<Rightarrow> json \<Rightarrow> json \<Rightarrow> range_table \<Rightarrow> py_error + json" where
  "get_answer_minimum defined_minimum decimal_places exclusive answer_ranges =
     bindE (get_numeric_value defined_minimum (JInt 0) answer_ranges) (\<lambda>minimum_value.
       if truthy exclusive
       then bindE (unit_of_places decimal_places) (\<lambda>u. add_float minimum_value u)
       else Inr minimum_value)"

definition get_answer_maximum ::
  "json \<Rightarrow> json \<Rightarrow> json \<Rightarrow> range_table \<Rightarrow> py_error + json" where
  "get_answer_maximum defined_maximum decimal_places exclusive answer_ranges =
     bindE (get_numeric_value defined_maximum (JInt MAX_NUMBER) answer_ranges) (\<lambda>maximum_value.
       if truthy exclusive
       then bindE (unit_of_places decimal_places) (\<lambda>u. sub_float maximum_value u)
       else Inr maximum_value)"

text \<open>\<open>x.get("identifier") if isinstance(x, dict) else None\<close>\<close>

fun referred_identifier :: "json \<Rightarrow> json" where
  "referred_identifier (JDict d) = (case map_of d ''identifier'' of Some i \<Rightarrow> i | None \<Rightarrow> JNull)"
| "referred_identifier _ = JNull"

definition get_numeric_range_values :: "validator \<Rightarrow> range_table \<Rightarrow> py_error + range_entry" where
  "get_numeric_range_values v answer_ranges =
     bindE (bound_value v ''minimum'' (JDict [])) (\<lambda>min_value.
     bindE (bound_value v ''maximum'' (JDict [])) (\<lambda>max_value.
     bindE (py_get (answer v) ''exclusive'' (JBool False)) (\<lambda>exclusive.
     bindE (py_get (answer v) ''decimal_places'' (JInt 0)) (\<lambda>decimal_places.
     bindE (get_answer_minimum min_value decimal_places exclusive answer_ranges) (\<lambda>mn.
     bindE (get_answer_maximum max_value decimal_places exclusive answer_ranges) (\<lambda>mx.
     bindE (py_get (answer v) ''default'' JNull) (\<lambda>dflt.
       Inr \<lparr>re_min = mn, re_max = mx, re_decimal_places = decimal_places,
            re_min_referred = referred_identifier min_value,
            re_max_referred = referred_identifier max_value,
            re_default = dflt\<rparr>)))))))"

subsection \<open>Checks against the table of ranges\<close>

text \<open>\<open>self.answer[bound]["value"]["identifier"]\<close>\<close>

definition bound_identifier :: "validator \<Rightarrow> string \<Rightarrow> py_error + json" where
  "bound_identifier v bound =
     bindE (py_item (answer v) bound) (\<lambda>b.
     bindE (py_item b ''value'') (\<lambda>x. py_item x ''identifier''))"

text \<open>The method returns whether it found a dangling reference, with the validator.\<close>

definition validate_referred_numeric_answer ::
  "validator \<Rightarrow> range_table \<Rightarrow> py_error + (bool \<times> validator)" where
  \<open>validate_referred_numeric_answer v answer_ranges =
     bindE (py_get (answer v) ''id'' JNull) (\<lambda>aid.
     bindE (table_item answer_ranges aid) (\<lambda>entry.
       if re_min entry = JNull then
         bindE (bound_identifier v ''minimum'') (\<lambda>identifier.
         bindE (py_item (answer v) ''id'') (\<lambda>i.
         bindE (add_error v
                  (Format
                     (''The referenced answer "{}" can not be used to set the minimum ''
                      @ ''of answer "{}"'') [identifier, i]) []) (\<lambda>v1.
           Inr (True, v1))))
       else if re_max entry = JNull then
         bindE (bound_identifier v ''maximum'') (\<lambda>identifier.
         bindE (py_item (answer v) ''id'') (\<lambda>i.
         bindE (add_error v
                  (Format
                     (''The referenced answer "{}" can not be used to set the maximum ''
                      @ ''of answer "{}"'') [identifier, i]) []) (\<lambda>v1.
           Inr (True, v1))))
       else Inr (False, v)))\<close>

definition validate_numeric_range :: "validator \<Rightarrow> range_table \<Rightarrow> py_error + validator" where
  \<open>validate_numeric_range v answer_ranges =
     bindE (py_get (answer v) ''id'' JNull) (\<lambda>aid.
     bindE (table_item answer_ranges aid) (\<lambda>entry.
       case (num_of (re_max entry), num_of (re_min entry)) of
         (Some max_value, Some min_value) \<Rightarrow>
           if max_value - min_value < 0 then
             bindE (py_item (answer v) ''id'') (\<lambda>i.
               add_error v
                 (Format ''Invalid range of min = {} and max = {} is possible for answer "{}".''
                    [re_min entry, re_max entry, i]) [])
           else Inr v
       | _ \<Rightarrow> Inl TypeError))\<close>

text \<open>The check of one reference (\<open>min_referred\<close>, then \<open>max_referred\<close>).\<close>

definition referred_decimals_check ::
  "validator \<Rightarrow> range_table \<Rightarrow> range_entry \<Rightarrow> json \<Rightarrow> py_error + validator" where
  \<open>referred_decimals_check v answer_ranges answer_values referred =
     (if referred \<noteq> JNull then
        bindE (table_item answer_ranges referred) (\<lambda>referred_values.
        bindE (py_lt (re_decimal_places answer_values) (re_decimal_places referred_values))
          (\<lambda>fewer.
            if fewer then
              bindE (py_item (answer v) ''id'') (\<lambda>i.
                add_error v
                  (Format
                     (''The referenced answer "{}" has a greater number of decimal places ''
                      @ ''than answer "{}"'') [referred, i]) [])
            else Inr v))
      else Inr v)\<close>

definition validate_referred_numeric_answer_decimals ::
  "validator \<Rightarrow> range_table \<Rightarrow> py_error + validator" where
  "validate_referred_numeric_answer_decimals v answer_ranges =
     bindE (py_item (answer v) ''id'') (\<lambda>aid.
     bindE (table_item answer_ranges aid) (\<lambda>answer_values.
     bindE (referred_decimals_check v answer_ranges answer_values
              (re_min_referred answer_values)) (\<lambda>v1.
       referred_decimals_check v1 answer_ranges answer_values
         (re_max_referred answer_values))))"

text \<open>The method returns nothing; its effect is on the validator's errors.\<close>

definition validate_numeric_answer_types :: "validator \<Rightarrow> range_table \<Rightarrow> py_error + validator" where
  "validate_numeric_answer_types v answer_ranges =
     bindE (validate_referred_numeric_answer v answer_ranges) (\<lambda>(referred_errors, v1).
       if referred_errors then Inr v1
       else
         bindE (validate_numeric_range v1 answer_ranges) (\<lambda>v2.
           validate_referred_numeric_answer_decimals v2 answer_ranges))"

subsection \<open>Dates\<close>

text \<open>
  The standard library and \<open>dateutil\<close> are outside the repository; what the validator uses
  of them is modelled here. A \<open>datetime\<close> parsed from \<open>%Y-%m\<close> or \<open>%Y-%m-%d\<close> is a
  calendar date at midnight: year, month, day of the proleptic Gregorian calendar.
\<close>

type_synonym date = "int \<times> int \<times> int"

definition is_digit :: "char \<Rightarrow> bool" where
  "is_digit c = (48 \<le> (of_char c :: nat) \<and> (of_char c :: nat) \<le> 57)"

definition digit_val :: "char \<Rightarrow> int" where
  "digit_val c = int (of_char c) - 48"

definition is_leap :: "int \<Rightarrow> bool" where
  "is_leap y = (y mod 4 = 0 \<and> (y mod 100 \<noteq> 0 \<or> y mod 400 = 0))"

definition month_lengths :: "int \<Rightarrow> int list" where
  "month_lengths y = [31, if is_leap y then 29 else 28, 31, 30, 31, 30, 31, 31, 30, 31, 30, 31]"

text \<open>For a month from 1 to 12.\<close>

definition days_in_month :: "int \<Rightarrow> int \<Rightarrow> int" where
  "days_in_month y m = month_lengths y ! nat (m - 1)"

text \<open>\<open>date.toordinal()\<close>: 1 is the first of January of year 1.\<close>

definition ordinal :: "date \<Rightarrow> int" where
  "ordinal dt =
     (case dt of (y, m, d) \<Rightarrow>
        (y - 1) * 365 + (y - 1) div 4 - (y - 1) div 100 + (y - 1) div 400
        + sum_list (take (nat (m - 1)) (month_lengths y)) + d)"

text \<open>\<open>re.match(r"\d{4}-\d{2}-\d{2}", value)\<close>: the pattern has to match a prefix.\<close>

definition looks_like_full_date :: "string \<Rightarrow> bool" where
  "looks_like_full_date s =
     (10 \<le> length s \<and> list_all is_digit (take 4 s) \<and> s ! 4 = CHR ''-''
      \<and> list_all is_digit (take 2 (drop 5 s)) \<and> s ! 7 = CHR ''-''
      \<and> list_all is_digit (take 2 (drop 8 s)))"

text \<open>
  \<open>strptime\<close> matches the text against a regular expression made from the format: \<open>%m\<close> is
  \<open>1[0-2]|0[1-9]|[1-9]\<close> and \<open>%d\<close> is \<open>3[01]|[12]\d|0[1-9]|[1-9]| [1-9]\<close>, the
  alternatives tried in this order. Each function returns the number read and the rest.
\<close>

definition nonzero_digit :: "char \<Rightarrow> bool" where
  "nonzero_digit c = (is_digit c \<and> c \<noteq> CHR ''0'')"

fun parse_month :: "string \<Rightarrow> (int \<times> string) option" where
  "parse_month [] = None"
| "parse_month [c] = (if nonzero_digit c then Some (digit_val c, []) else None)"
| "parse_month (c # d # r) =
     (if c = CHR ''1'' \<and> d \<in> {CHR ''0'', CHR ''1'', CHR ''2''} then Some (10 + digit_val d, r)
      else if c = CHR ''0'' \<and> nonzero_digit d then Some (digit_val d, r)
      else if nonzero_digit c then Some (digit_val c, d # r)
      else None)"

fun parse_day :: "string \<Rightarrow> (int \<times> string) option" where
  "parse_day [] = None"
| "parse_day [c] = (if nonzero_digit c then Some (digit_val c, []) else None)"
| "parse_day (c # d # r) =
     (if c = CHR ''3'' \<and> d \<in> {CHR ''0'', CHR ''1''} then Some (30 + digit_val d, r)
      else if c \<in> {CHR ''1'', CHR ''2''} \<and> is_digit d then Some (10 * digit_val c + digit_val d, r)
      else if c = CHR ''0'' \<and> nonzero_digit d then Some (digit_val d, r)
      else if nonzero_digit c then Some (digit_val c, d # r)
      else if c = CHR '' '' \<and> nonzero_digit d then Some (digit_val d, r)
      else None)"

text \<open>\<open>datetime(y, m, d)\<close> for a month from 1 to 12.\<close>

definition make_date :: "int \<Rightarrow> int \<Rightarrow> int \<Rightarrow> py_error + date" where
  "make_date y m d =
     (if 1 \<le> y \<and> y \<le> 9999 \<and> 1 \<le> d \<and> d \<le> days_in_month y m then Inr (y, m, d)
      else Inl ValueError)"

text \<open>
  \<open>datetime.strptime(s, "%Y-%m-%d")\<close> when \<open>with_day\<close>, else \<open>datetime.strptime(s, "%Y-%m")\<close>.
  The whole text has to be read.
\<close>

definition strptime :: "string \<Rightarrow> bool \<Rightarrow> py_error + date" where
  "strptime s with_day =
     (if 5 \<le> length s \<and> list_all is_digit (take 4 s) \<and> s ! 4 = CHR ''-'' then
        (let y = 1000 * digit_val (s ! 0) + 100 * digit_val (s ! 1)
                 + 10 * digit_val (s ! 2) + digit_val (s ! 3)
         in case parse_month (drop 5 s) of
              None \<Rightarrow> Inl ValueError
            | Some (m, r) \<Rightarrow>
                if with_day then
                  (case r of
                     [] \<Rightarrow> Inl ValueError
                   | h # r1 \<Rightarrow>
                       if h = CHR ''-'' then
                         (case parse_day r1 of
                            None \<Rightarrow> Inl ValueError
                          | Some (d, r2) \<Rightarrow> if r2 = [] then make_date y m d else Inl ValueError)
                       else Inl ValueError)
                else if r = [] then make_date y m 1
                else Inl ValueError)
      else Inl ValueError)"

text \<open>\<open>None\<close> for a falsy value; \<open>re.match\<close> rejects a value that is not a string.\<close>

definition convert_to_datetime :: "json \<Rightarrow> py_error + date option" where
  "convert_to_datetime val =
     (if \<not> truthy val then Inr None
      else case val of
             JStr s \<Rightarrow> bindE (strptime s (looks_like_full_date s)) (\<lambda>d. Inr (Some d))
           | _ \<Rightarrow> Inl TypeError)"

text \<open>
  \<open>relativedelta(years=, months=, days=)\<close>: years and months have to be whole numbers; the
  constructor first checks both, then converts them, then folds twelve months into a year.
\<close>

fun check_whole :: "json \<Rightarrow> py_error + unit" where
  "check_whole (JStr s) = Inl ValueError"
| "check_whole (JList xs) = Inl TypeError"
| "check_whole (JDict d) = Inl TypeError"
| "check_whole (JFloat r) = (if r = of_int \<lfloor>r\<rfloor> then Inr () else Inl ValueError)"
| "check_whole _ = Inr ()"

fun to_int :: "json \<Rightarrow> py_error + int" where
  "to_int (JInt i) = Inr i"
| "to_int (JBool b) = Inr (if b then 1 else 0)"
| "to_int (JFloat r) = Inr \<lfloor>r\<rfloor>"
| "to_int (JStr s) = Inl ValueError"
| "to_int _ = Inl TypeError"

definition relativedelta :: "json \<Rightarrow> json \<Rightarrow> json \<Rightarrow> py_error + (int \<times> int \<times> real)" where
  "relativedelta years months days =
     bindE (check_whole years) (\<lambda>_.
     bindE (check_whole months) (\<lambda>_.
     bindE (to_int years) (\<lambda>y.
     bindE (to_int months) (\<lambda>m.
       case num_of days of
         None \<Rightarrow> Inl TypeError
       | Some d \<Rightarrow>
           if \<bar>m\<bar> > 11
           then Inr (y + sgn m * (\<bar>m\<bar> div 12), sgn m * (\<bar>m\<bar> mod 12), d)
           else Inr (y, m, d)))))"

text \<open>
  \<open>dt + relativedelta\<close>: the years and months move the calendar date, the day is cut to
  the length of the month reached, then the days are added as a \<open>timedelta\<close>. The result is
  a point in time, kept as its day number (with a fraction when \<open>days\<close> is not whole); it
  has to stay within the years 1 to 9999.
\<close>

definition add_relativedelta :: "date \<Rightarrow> int \<times> int \<times> real \<Rightarrow> py_error + real" where
  "add_relativedelta dt rd =
     (case dt of (y0, m0, d0) \<Rightarrow> case rd of (years, months, days) \<Rightarrow>
        (let m1 = m0 + months;
             y = (if months \<noteq> 0 \<and> m1 > 12 then y0 + years + 1
                  else if months \<noteq> 0 \<and> m1 < 1 then y0 + years - 1
                  else y0 + years);
             m = (if months \<noteq> 0 \<and> m1 > 12 then m1 - 12
                  else if months \<noteq> 0 \<and> m1 < 1 then m1 + 12
                  else m1);
             d = min (days_in_month y m) d0
         in if y < 1 \<or> y > 9999 then Inl ValueError
            else
              (let t = real_of_int (ordinal (y, m, d)) + days
               in if 1 \<le> t \<and> t < 3652060 then Inr t else Inl OverflowError)))"

definition get_relative_date :: "json \<Rightarrow> json \<Rightarrow> py_error + real" where
  "get_relative_date date_string offset_object =
     bindE (convert_to_datetime date_string) (\<lambda>dt.
     bindE (py_get offset_object ''years'' (JInt 0)) (\<lambda>years.
     bindE (py_get offset_object ''months'' (JInt 0)) (\<lambda>months.
     bindE (py_get offset_object ''days'' (JInt 0)) (\<lambda>days.
     bindE (relativedelta years months days) (\<lambda>rd.
       case dt of None \<Rightarrow> Inl TypeError | Some d \<Rightarrow> add_relativedelta d rd)))))"

text \<open>
  \<open>now\<close> is \<open>datetime.utcnow().strftime("%Y-%m-%d")\<close>, the date of the clock when the method
  runs: a parameter.
\<close>

definition get_offset_date :: "string \<Rightarrow> json \<Rightarrow> py_error + real" where
  "get_offset_date now answer_min_or_max =
     bindE (py_item answer_min_or_max ''value'') (\<lambda>val.
     bindE (py_get answer_min_or_max ''offset_by'' (JDict [])) (\<lambda>offset.
       get_relative_date (if py_eq val (JStr ''now'') then JStr now else val) offset))"

text \<open>The inner guard: both bounds carry a \<open>value\<close> and neither value is a dict.\<close>

definition literal_date_bounds :: "json \<Rightarrow> json \<Rightarrow> py_error + bool" where
  "literal_date_bounds minimum maximum =
     bindE (py_in (JStr ''value'') minimum) (\<lambda>has_min.
       if \<not> has_min then Inr False
       else
         bindE (py_in (JStr ''value'') maximum) (\<lambda>has_max.
           if \<not> has_max then Inr False
           else
             bindE (py_item minimum ''value'') (\<lambda>min_value.
               if is_dict min_value then Inr False
               else bindE (py_item maximum ''value'') (\<lambda>max_value.
                      Inr (\<not> is_dict max_value)))))"

text \<open>The outer guard: a \<open>Date\<close> answer with a minimum and a maximum.\<close>

definition has_date_bounds :: "validator \<Rightarrow> py_error + bool" where
  "has_date_bounds v =
     bindE (py_item (answer v) ''type'') (\<lambda>t.
       if \<not> py_eq t (JStr ''Date'') then Inr False
       else
         bindE (py_in (JStr ''minimum'') (answer v)) (\<lambda>has_min.
           if \<not> has_min then Inr False else py_in (JStr ''maximum'') (answer v)))"

definition is_offset_date_valid :: "string \<Rightarrow> validator \<Rightarrow> py_error + bool" where
  "is_offset_date_valid now v =
     bindE (has_date_bounds v) (\<lambda>dated.
       if dated then
         bindE (py_item (answer v) ''minimum'') (\<lambda>minimum.
         bindE (py_item (answer v) ''maximum'') (\<lambda>maximum.
         bindE (literal_date_bounds minimum maximum) (\<lambda>literal.
           if literal then
             bindE (get_offset_date now minimum) (\<lambda>minimum_date.
             bindE (get_offset_date now maximum) (\<lambda>maximum_date.
               Inr (minimum_date < maximum_date)))
           else Inr True)))
       else Inr True)"

subsection \<open>Suggestion urls\<close>

text \<open>
  What the validator takes from its surroundings: the date of the clock and
  \<open>urllib.parse.urlparse\<close>, of whose result the scheme, the network location and the path
  are read.
\<close>

record runtime =
  utcnow :: string
  urlparse :: "json \<Rightarrow> py_error + (string \<times> string \<times> string)"

definition url_path_char :: "char \<Rightarrow> bool" where
  "url_path_char c =
     (let n = (of_char c :: nat)
      in (65 \<le> n \<and> n \<le> 90) \<or> (97 \<le> n \<and> n \<le> 122) \<or> (48 \<le> n \<and> n \<le> 57)
         \<or> c \<in> {CHR ''_'', CHR ''.'', CHR ''-'', CHR ''/'', CHR ''~''})"

text \<open>
  \<open>re.match(r"^[A-Za-z0-9_.\-/~]+$", path) is not None\<close>; \<open>$\<close> also matches before a
  newline that ends the text.
\<close>

definition url_path_matches :: "string \<Rightarrow> bool" where
  "url_path_matches path =
     (let body = (if path \<noteq> [] \<and> last path = CHR 0x0A then butlast path else path)
      in body \<noteq> [] \<and> list_all url_path_char body)"

definition is_suggestion_url_valid :: "runtime \<Rightarrow> validator \<Rightarrow> py_error + bool" where
  "is_suggestion_url_valid rt v =
     bindE (py_item (answer v) ''suggestions_url'') (\<lambda>url.
     bindE (urlparse rt url) (\<lambda>(scheme, netloc, path).
       if scheme \<noteq> [] \<and> netloc \<noteq> [] then Inr True
       else Inr (url_path_matches path)))"

subsection \<open>validate\<close>

text \<open>The guard of the suggestion url check, with its three operands of \<open>and\<close>.\<close>

definition suggestion_url_invalid :: "runtime \<Rightarrow> validator \<Rightarrow> py_error + bool" where
  "suggestion_url_invalid rt v =
     bindE (py_item (answer v) ''type'') (\<lambda>t.
       if \<not> py_eq t (JStr ''TextField'') then Inr False
       else
         bindE (py_in (JStr ''suggestions_url'') (answer v)) (\<lambda>has_url.
           if \<not> has_url then Inr False
           else bindE (is_suggestion_url_valid rt v) (\<lambda>ok. Inr (\<not> ok))))"

text \<open>
  The calls in the order of the source. The lists that \<open>validate_duplicate_options\<close>,
  \<open>validate_labels_and_values_match\<close> and \<open>validate_routing_on_answer_options\<close> return are
  not used by \<open>validate\<close>: only an exception of theirs has an effect.
\<close>

definition validate :: "runtime \<Rightarrow> validator \<Rightarrow> py_error + validator" where
  "validate rt v =
     bindE (validate_duplicate_options v) (\<lambda>_.
     bindE (validate_answer_actions v) (\<lambda>v1.
     bindE (validate_labels_and_values_match v1) (\<lambda>_.
     bindE (validate_routing_on_answer_options v1) (\<lambda>_.
     bindE (are_decimal_places_valid v1) (\<lambda>places_ok.
     bindE (if \<not> places_ok then add_error v1 DECIMAL_PLACES_UNDEFINED [] else Inr v1) (\<lambda>v2.
     bindE (is_offset_date_valid (utcnow rt) v2) (\<lambda>offset_ok.
     bindE (if \<not> offset_ok then add_error v2 INVALID_OFFSET_DATE [] else Inr v2) (\<lambda>v3.
     bindE (suggestion_url_invalid rt v3) (\<lambda>url_bad.
     bindE (if url_bad then add_error v3 INVALID_SUGGESTION_URL [] else Inr v3) (\<lambda>v4.
     bindE (py_item (answer v4) ''type'') (\<lambda>t.
       if list_ex (\<lambda>y. py_eq y t) [JStr ''Number'', JStr ''Currency'', JStr ''Percentage'']
       then
         bindE (validate_numeric_default v4) (\<lambda>v5.
         bindE (validate_numeric_answer_value v5) (\<lambda>v6.
           validate_numeric_answer_decimals v6))
       else Inr v4)))))))))))"

section \<open>QuestionnaireSchema\<close>

text \<open>
  The constructor and three properties query the schema with the \<open>jsonpath_rw\<close> library,
  which is outside the repository. The object is modelled after its construction, the
  results of the queries being fields:
  \<^item> \<open>id_matches\<close>: for each match of \<open>parse("$..id").find(schema)\<close>, in the order of the
    library, \<open>str(match.full_path)\<close> and \<open>match.value\<close>; a full path reads like
    \<open>sections.[0].groups.[0].blocks.[1].question.id\<close>;
  \<^item> \<open>question_matches\<close>: the same for \<open>parse("$..question").find(schema)\<close>;
  \<^item> \<open>match1\<close>: \<open>jp.match1(path, schema)\<close>, which may raise on a path it cannot parse;
  \<^item> \<open>blocks_by_id\<close> and \<open>section_ids\<close>, as the constructor leaves them.

  A property under \<open>cached_property\<close> is computed at its first read and the result is
  kept in the object. For \<open>questions_with_context\<close>, \<open>id_paths\<close> and \<open>answers\<close> the
  function is a generator function, so the result that is kept is one generator object:
  \<^item> \<open>questions_gen\<close> and \<open>id_paths_gen\<close>: \<open>None\<close> before the first read, then the matches
    the generator has not gone through yet;
  \<^item> \<open>answers_exhausted\<close>: whether the generator of \<open>answers\<close> has run to its end;
  \<^item> \<open>ids_cache\<close>: the list \<open>ids\<close> returned, once it has.
  \<open>lru_cache\<close> keeps results of methods that depend on the schema alone, which is never
  modified: it cannot be observed.
\<close>

record questionnaire_schema =
  id_matches :: "(string \<times> json) list"
  question_matches :: "(json \<times> string) list"
  match1 :: "string \<Rightarrow> py_error + json"
  blocks_by_id :: "json \<Rightarrow> json option"
  section_ids :: "json list"
  questions_gen :: "(json \<times> string) list option"
  id_paths_gen :: "(string \<times> json) list option"
  answers_exhausted :: bool
  ids_cache :: "json list option"

record context_record =
  ctx_section :: json
  ctx_block :: json
  ctx_group_id :: json

subsection \<open>Paths\<close>

text \<open>\<open>int(path[p : p + 1])\<close>: the slice is one character, or empty past the end.\<close>

definition int_of_char_at :: "string \<Rightarrow> nat \<Rightarrow> py_error + int" where
  "int_of_char_at path p =
     (if p < length path \<and> is_digit (path ! p) then Inr (digit_val (path ! p))
      else Inl ValueError)"

definition get_key_index_from_path :: "string \<Rightarrow> string \<Rightarrow> py_error + int" where
  "get_key_index_from_path key path =
     (let position = str_find path key + int (length (key @ ''.[''))
      in int_of_char_at path (nat position))"

definition get_element_path :: "string \<Rightarrow> string \<Rightarrow> string" where
  "get_element_path key path =
     (let position = str_find path key
      in slice_to path (position + int (length (key @ ''.[0]''))))"

definition get_path_id :: "questionnaire_schema \<Rightarrow> string \<Rightarrow> py_error + json" where
  "get_path_id s path = match1 s (path @ ''.id'')"

definition sub_block_keys :: "string list" where
  "sub_block_keys = [''add_block'', ''edit_block'', ''add_or_edit_block'', ''remove_block'']"

text \<open>\<open>self.blocks_by_id[k]\<close> and \<open>self.section_ids[i]\<close> for an index that is not negative.\<close>

definition blocks_by_id_item :: "questionnaire_schema \<Rightarrow> json \<Rightarrow> py_error + json" where
  "blocks_by_id_item s k =
     (if hashable k then (case blocks_by_id s k of Some b \<Rightarrow> Inr b | None \<Rightarrow> Inl KeyError)
      else Inl TypeError)"

definition list_item :: "'a list \<Rightarrow> int \<Rightarrow> py_error + 'a" where
  "list_item xs i = (if 0 \<le> i \<and> nat i < length xs then Inr (xs ! nat i) else Inl IndexError)"

definition get_context_from_path ::
  "questionnaire_schema \<Rightarrow> string \<Rightarrow> py_error + context_record" where
  "get_context_from_path s full_path =
     bindE (get_key_index_from_path ''sections'' full_path) (\<lambda>section_index.
       let block_path = get_element_path ''blocks'' full_path;
           group_path = get_element_path ''groups'' full_path
       in
         bindE (get_path_id s group_path) (\<lambda>group_id.
         bindE (get_path_id s block_path) (\<lambda>block_id0.
         bindE (if list_ex (str_contains full_path) sub_block_keys then
                  (let key_path = slice_from full_path (int (length block_path) + 1);
                       key = slice_to key_path (str_find key_path ''.question'')
                   in bindE (blocks_by_id_item s block_id0) (\<lambda>blk.
                      bindE (py_item blk key) (\<lambda>sub_block. py_item sub_block ''id'')))
                else Inr block_id0) (\<lambda>block_id.
         bindE (list_item (section_ids s) section_index) (\<lambda>section.
           Inr \<lparr>ctx_section = section, ctx_block = block_id, ctx_group_id = group_id\<rparr>)))))"

subsection \<open>Generators kept by \<open>cached_property\<close>\<close>

text \<open>
  Each function below is a \<open>for\<close> loop that runs the kept generator to its end: it returns
  what the loop sees, and the object with the generator used up.
\<close>

fun questions_with_context_from ::
  "questionnaire_schema \<Rightarrow> (json \<times> string) list \<Rightarrow> py_error + (json \<times> context_record) list" where
  "questions_with_context_from s [] = Inr []"
| "questions_with_context_from s ((q, full_path) # rest) =
     bindE (get_context_from_path s full_path) (\<lambda>c.
     bindE (questions_with_context_from s rest) (\<lambda>qs. Inr ((q, c) # qs)))"

definition questions_with_context ::
  "questionnaire_schema \<Rightarrow> py_error + ((json \<times> context_record) list \<times> questionnaire_schema)" where
  "questions_with_context s =
     (let pending = (case questions_gen s of None \<Rightarrow> question_matches s | Some ms \<Rightarrow> ms)
      in bindE (questions_with_context_from s pending) (\<lambda>qs.
           Inr (qs, s\<lparr>questions_gen := Some []\<rparr>)))"

text \<open>\<open>for answer in question["answers"]: yield answer\<close>, over the questions.\<close>

fun answers_of_questions :: "json list \<Rightarrow> py_error + json list" where
  "answers_of_questions [] = Inr []"
| "answers_of_questions (q # rest) =
     bindE (py_item q ''answers'') (\<lambda>x.
     bindE (py_iter x) (\<lambda>xs.
     bindE (answers_of_questions rest) (\<lambda>ys. Inr (xs @ ys))))"

definition answers ::
  "questionnaire_schema \<Rightarrow> py_error + (json list \<times> questionnaire_schema)" where
  "answers s =
     (if answers_exhausted s then Inr ([], s)
      else
        bindE (questions_with_context s) (\<lambda>(qs, s1).
        bindE (answers_of_questions (map fst qs)) (\<lambda>xs.
          Inr (xs, s1\<lparr>answers_exhausted := True\<rparr>))))"

subsection \<open>The ids of the document\<close>

text \<open>
  The two string literals of the first entry stand next to each other in the source, with
  no comma between them: Python joins them into one string.
\<close>

definition ignored_paths :: "string list" where
  "ignored_paths =
     [''routing_rules'' @ ''skip_conditions'',
      ''when'',
      ''edit_block.question.answers'',
      ''add_block.question.answers'',
      ''remove_block.question.answers'',
      ''edit_block.question_variants.answers'',
      ''add_block.question_variants.answers'',
      ''remove_block.question_variants.answers'']"

text \<open>What the generator of \<open>id_paths\<close> yields for the matches it goes through.\<close>

definition id_paths_from :: "(string \<times> json) list \<Rightarrow> (string \<times> json) list" where
  "id_paths_from ms =
     map (\<lambda>(full_path, x). (slice_to full_path (- 3), x))
       (filter (\<lambda>(full_path, x). \<not> list_ex (str_contains full_path) ignored_paths) ms)"

definition id_paths ::
  "questionnaire_schema \<Rightarrow> (string \<times> json) list \<times> questionnaire_schema" where
  "id_paths s =
     (let pending = (case id_paths_gen s of None \<Rightarrow> id_matches s | Some ms \<Rightarrow> ms)
      in (id_paths_from pending, s\<lparr>id_paths_gen := Some []\<rparr>))"

text \<open>\<open>path.split(".")\<close>, \<open>".".join(parts)\<close> and \<open>parts.index(x)\<close>\<close>

fun split_on :: "char \<Rightarrow> string \<Rightarrow> string list" where
  "split_on c [] = [[]]"
| "split_on c (x # xs) =
     (if x = c then [] # split_on c xs
      else case split_on c xs of [] \<Rightarrow> [[x]] | w # ws \<Rightarrow> (x # w) # ws)"

fun join_with :: "char \<Rightarrow> string list \<Rightarrow> string" where
  "join_with c [] = []"
| "join_with c [w] = w"
| "join_with c (w # ws) = w @ c # join_with c ws"

fun index_of :: "'a \<Rightarrow> 'a list \<Rightarrow> nat option" where
  "index_of x [] = None"
| "index_of x (y # ys) = (if y = x then Some 0 else map_option Suc (index_of x ys))"

text \<open>
  \<open>unique_ids_per_block[string_path].add(value)\<close> on the \<open>defaultdict(set)\<close>: the dict keeps
  its keys in the order of their first insertion. The order in which Python iterates one
  of the sets is not specified; the model keeps the order of insertion.
\<close>

fun add_to_block :: "string \<Rightarrow> json \<Rightarrow> (string \<times> json list) list \<Rightarrow> (string \<times> json list) list" where
  "add_to_block k x [] = [(k, [x])]"
| "add_to_block k x ((k', xs) # rest) =
     (if k' = k then (k', set_add x xs) # rest else (k', xs) # add_to_block k x rest)"

fun ids_loop ::
  "(string \<times> json) list \<Rightarrow> (string \<times> json list) list \<Rightarrow> json list \<Rightarrow> py_error + json list" where
  "ids_loop [] unique_ids_per_block non_block_ids =
     Inr (concat (map snd unique_ids_per_block) @ non_block_ids)"
| "ids_loop ((path, x) # rest) unique_ids_per_block non_block_ids =
     (if str_contains path ''blocks'' then
        (let path_list = split_on CHR ''.'' path
         in case index_of ''blocks'' path_list of
              None \<Rightarrow> Inl ValueError
            | Some i \<Rightarrow>
                if hashable x
                then ids_loop rest
                       (add_to_block (join_with CHR ''.'' (take (i + 2) path_list)) x
                          unique_ids_per_block)
                       non_block_ids
                else Inl TypeError)
      else ids_loop rest unique_ids_per_block (non_block_ids @ [x]))"

definition ids :: "questionnaire_schema \<Rightarrow> py_error + (json list \<times> questionnaire_schema)" where
  "ids s =
     (case ids_cache s of
        Some all_ids \<Rightarrow> Inr (all_ids, s)
      | None \<Rightarrow>
          (case id_paths s of (paths, s1) \<Rightarrow>
             bindE (ids_loop paths [] []) (\<lambda>all_ids.
               Inr (all_ids, s1\<lparr>ids_cache := Some all_ids\<rparr>))))"

section \<open>Objects and documents used in the examples\<close>

text \<open>\<open>AnswerValidator(schema_element, block, list_names, block_ids)\<close>: no error yet.\<close>

definition AnswerValidator :: "json \<Rightarrow> json \<Rightarrow> json \<Rightarrow> json \<Rightarrow> validator" where
  "AnswerValidator schema_element blk names bids =
     \<lparr>answer = schema_element, block = blk, list_names = names, block_ids = bids, errors = []\<rparr>"

text \<open>
  A number answer whose minimum refers to the answer \<open>x\<close>, with the \<open>exclusive\<close> flag
  as given.
\<close>

definition referring_answer :: "bool \<Rightarrow> json" where
  "referring_answer exclusive =
     JDict [(''id'', JStr ''b''), (''type'', JStr ''Number''), (''exclusive'', JBool exclusive),
       (''minimum'', JDict [(''value'',
          JDict [(''source'', JStr ''answers''), (''identifier'', JStr ''x'')])])]"

text \<open>
  A currency answer with two decimal places whose maximum refers to the answer \<open>y\<close>, with
  the \<open>exclusive\<close> flag as given.
\<close>

definition capped_answer :: "bool \<Rightarrow> json" where
  "capped_answer exclusive =
     JDict [(''id'', JStr ''c''), (''type'', JStr ''Currency''), (''exclusive'', JBool exclusive),
       (''decimal_places'', JInt 2),
       (''minimum'', JDict [(''value'', JInt 0)]),
       (''maximum'', JDict [(''value'',
          JDict [(''source'', JStr ''answers''), (''identifier'', JStr ''y'')])])]"


text \<open>
  The entries of the first two answers when \<open>exclusive\<close> is false and the table has
  neither \<open>x\<close> nor \<open>y\<close>.
\<close>

definition referring_entry :: range_entry where
  "referring_entry =
     \<lparr>re_min = JNull, re_max = JInt MAX_NUMBER, re_decimal_places = JInt 0,
      re_min_referred = JStr ''x'', re_max_referred = JNull, re_default = JNull\<rparr>"

definition capped_entry :: range_entry where
  "capped_entry =
     \<lparr>re_min = JInt 0, re_max = JNull, re_decimal_places = JInt 2,
      re_min_referred = JNull, re_max_referred = JStr ''y'', re_default = JNull\<rparr>"

text \<open>
  The entry of the first answer when the table has \<open>x\<close>, and an entry for \<open>x\<close> with two
  decimal places.
\<close>

definition resolved_entry :: range_entry where
  "resolved_entry =
     \<lparr>re_min = JInt 0, re_max = JInt MAX_NUMBER, re_decimal_places = JInt 0,
      re_min_referred = JStr ''x'', re_max_referred = JNull, re_default = JNull\<rparr>"

definition fine_entry :: range_entry where
  "fine_entry =
     \<lparr>re_min = JInt 0, re_max = JInt 100, re_decimal_places = JInt 2,
      re_min_referred = JNull, re_max_referred = JNull, re_default = JNull\<rparr>"

definition precision_error :: "json \<Rightarrow> json \<Rightarrow> error_record" where
  \<open>precision_error referred i =
     \<lparr>err_message = Format (''The referenced answer "{}" has a greater number of decimal places ''
                      @ ''than answer "{}"'') [referred, i], err_context = [], err_id = i\<rparr>\<close>

text \<open>A radio answer whose two options have the same value \<open>a\<close>.\<close>

definition twin_values_answer :: json where
  "twin_values_answer =
     JDict [(''id'', JStr ''a1''), (''type'', JStr ''Radio''), (''mandatory'', JBool True),
       (''options'', JList [JDict [(''label'', JStr ''x''), (''value'', JStr ''a'')],
                            JDict [(''label'', JStr ''y''), (''value'', JStr ''a'')]])]"

text \<open>
  A radio answer with the options \<open>Yes\<close> and \<open>No\<close>, and a block whose two routing rules
  each have a \<open>when\<close> clause on this answer, one for each option; no rule is without
  \<open>when\<close>.
\<close>

definition routed_answer :: "bool \<Rightarrow> json" where
  "routed_answer mandatory =
     JDict [(''id'', JStr ''a1''), (''type'', JStr ''Radio''), (''mandatory'', JBool mandatory),
       (''options'', JList [JDict [(''label'', JStr ''Yes''), (''value'', JStr ''Yes'')],
                            JDict [(''label'', JStr ''No''), (''value'', JStr ''No'')]])]"

definition routing_block :: json where
  "routing_block =
     JDict [(''id'', JStr ''b1''), (''type'', JStr ''Question''),
       (''routing_rules'', JList
          [JDict [(''goto'', JDict [(''block'', JStr ''b2''),
             (''when'', JList [JDict [(''id'', JStr ''a1''), (''condition'', JStr ''equals''),
                                      (''value'', JStr ''Yes'')]])])],
           JDict [(''goto'', JDict [(''block'', JStr ''b3''),
             (''when'', JList [JDict [(''id'', JStr ''a1''), (''condition'', JStr ''equals''),
                                      (''value'', JStr ''No'')]])])]])]"



text \<open>
  \<open>QuestionnaireSchema(schema)\<close>: the object as the constructor leaves it, no property read
  yet.
\<close>

definition QuestionnaireSchema ::
  "(string \<times> json) list \<Rightarrow> (json \<times> string) list \<Rightarrow> (string \<Rightarrow> py_error + json)
   \<Rightarrow> (json \<Rightarrow> json option) \<Rightarrow> json list \<Rightarrow> questionnaire_schema" where
  "QuestionnaireSchema ims qms m1 blocks sids =
     \<lparr>id_matches = ims, question_matches = qms, match1 = m1, blocks_by_id = blocks,
      section_ids = sids, questions_gen = None, id_paths_gen = None,
      answers_exhausted = False, ids_cache = None\<rparr>"

text \<open>
  A document with one section, one group and one list collector block \<open>b0\<close>. The block
  has a routing rule \<open>{"goto": {"id": "b1", "when": [{"id": "a0", ...}]}}\<close> and an
  \<open>add_block\<close> with one question variant, whose question \<open>q-add\<close> has the answer
  \<open>first-name\<close>. These are the matches of \<open>$..id\<close> and of \<open>$..question\<close>.
\<close>

definition collector_id_matches :: "(string \<times> json) list" where
  "collector_id_matches =
     [(''sections.[0].id'', JStr ''s0''),
      (''sections.[0].groups.[0].id'', JStr ''g0''),
      (''sections.[0].groups.[0].blocks.[0].id'', JStr ''b0''),
      (''sections.[0].groups.[0].blocks.[0].routing_rules.[0].goto.id'', JStr ''b1''),
      (''sections.[0].groups.[0].blocks.[0].routing_rules.[0].goto.when.[0].id'', JStr ''a0''),
      (''sections.[0].groups.[0].blocks.[0].add_block.id'', JStr ''add-person''),
      (''sections.[0].groups.[0].blocks.[0].add_block.question_variants.[0].question.id'',
       JStr ''q-add''),
      (''sections.[0].groups.[0].blocks.[0].add_block.question_variants.[0].question.answers.[0].id'',
       JStr ''first-name'')]"

definition add_question :: json where
  "add_question =
     JDict [(''id'', JStr ''q-add''), (''type'', JStr ''General''),
       (''answers'', JList [JDict [(''id'', JStr ''first-name''), (''type'', JStr ''TextField''),
                                   (''mandatory'', JBool True)]])]"

definition collector_block :: json where
  "collector_block =
     JDict [(''id'', JStr ''b0''), (''type'', JStr ''ListCollector''), (''for_list'', JStr ''people''),
       (''routing_rules'', JList [JDict [(''goto'', JDict [(''id'', JStr ''b1''),
          (''when'', JList [JDict [(''id'', JStr ''a0''), (''condition'', JStr ''equals''),
                                   (''value'', JStr ''Yes'')]])])]]),
       (''add_block'', JDict [(''id'', JStr ''add-person''),
          (''question_variants'', JList [JDict [(''question'', add_question)]])])]"

definition collector_schema :: questionnaire_schema where
  "collector_schema =
     QuestionnaireSchema collector_id_matches
       [(add_question,
         ''sections.[0].groups.[0].blocks.[0].add_block.question_variants.[0].question'')]
       (\<lambda>path. if path = ''sections.[0].groups.[0].id'' then Inr (JStr ''g0'')
               else if path = ''sections.[0].groups.[0].blocks.[0].id'' then Inr (JStr ''b0'')
               else Inr JNull)
       [JStr ''b0'' \<mapsto> collector_block]
       [JStr ''s0'']"



section \<open>Decimal indices in paths\<close>

text \<open>
  The library writes the index of a list element in decimal: \<open>decimal n\<close>. Its first
  character is the digit \<open>leading_digit n\<close>.
\<close>

definition digit_char :: "nat \<Rightarrow> char" where
  "digit_char k = char_of (48 + k)"

fun decimal :: "nat \<Rightarrow> string" where
  "decimal n = (if n < 10 then [digit_char n] else decimal (n div 10) @ [digit_char (n mod 10)])"


text \<open>The two error records for a reference that cannot be resolved.\<close>

definition dangling_minimum_error :: "json \<Rightarrow> json \<Rightarrow> error_record" where
  \<open>dangling_minimum_error identifier i =
     \<lparr>err_message = Format (''The referenced answer "{}" can not be used to set the minimum ''
                      @ ''of answer "{}"'') [identifier, i], err_context = [], err_id = i\<rparr>\<close>

definition dangling_maximum_error :: "json \<Rightarrow> json \<Rightarrow> error_record" where
  \<open>dangling_maximum_error identifier i =
     \<lparr>err_message = Format (''The referenced answer "{}" can not be used to set the maximum ''
                      @ ''of answer "{}"'') [identifier, i], err_context = [], err_id = i\<rparr>\<close>


text \<open>
  Two loops in a row over the same property of one object: what the first loop sees and
  what the second sees.
\<close>

definition twice :: "('s \<Rightarrow> py_error + ('a \<times> 's)) \<Rightarrow> 's \<Rightarrow> py_error + ('a \<times> 'a)" where
  "twice iterate s =
     bindE (iterate s) (\<lambda>(first, s1).
     bindE (iterate s1) (\<lambda>(second, s2). Inr (first, second)))"

text \<open>
  An error record whose message is one of the constants of the class, not a formatted
  text; and a validator that differs from another by more such records at the end.
\<close>

definition constant_message :: "error_record \<Rightarrow> bool" where
  "constant_message e = (case err_message e of Text t \<Rightarrow> True | Format t xs \<Rightarrow> False)"

definition adds_constant :: "validator \<Rightarrow> validator \<Rightarrow> bool" where
  "adds_constant v v' =
     (take (length (errors v)) (errors v') = errors v
      \<and> list_all constant_message (drop (length (errors v)) (errors v')))"

section \<open>Basic facts\<close>

lemma bindE_Inl [simp]: "bindE (Inl e) f = Inl e"
  by (simp add: bindE_def)

lemma bindE_Inr [simp]: "bindE (Inr x) f = f x"
  by (simp add: bindE_def)

lemma bindE_eq_Inr: "bindE m f = Inr y \<longleftrightarrow> (\<exists>x. m = Inr x \<and> f x = Inr y)"
  by (cases m) simp_all

lemma list_ex_key [simp]: "list_ex (\<lambda>(k', v). k = k') d = (map_of d k \<noteq> None)"
  by (induction d) auto

lemma py_eq_JStr [simp]: "py_eq y (JStr s) \<longleftrightarrow> y = JStr s"
  by (cases y) auto


lemma unit_of_places_error: "unit_of_places dp = Inl a \<Longrightarrow> a = TypeError"
  by (cases dp) simp_all

lemma add_float_JNull [simp]: "add_float JNull u = Inl TypeError"
  by (simp add: add_float_def)

lemma sub_float_JNull [simp]: "sub_float JNull u = Inl TypeError"
  by (simp add: sub_float_def)

section \<open>The range of a numeric answer\<close>

lemma dangling_value:
  assumes "map_of d ''source'' = Some (JStr ''answers'')"
    and "map_of d ''identifier'' = Some x" and "answer_ranges x = None"
  shows "get_numeric_value (JDict d) dflt answer_ranges = Inr JNull
       \<or> get_numeric_value (JDict d) dflt answer_ranges = Inl TypeError"
  using assms by (auto simp: get_numeric_value_def table_get_def)

lemma exclusive_minimum_fails:
  assumes "truthy ex" "map_of d ''source'' = Some (JStr ''answers'')"
    and "map_of d ''identifier'' = Some x" and "answer_ranges x = None"
  shows "get_answer_minimum (JDict d) dp ex answer_ranges = Inl TypeError"
  using dangling_value[of d x answer_ranges "JInt 0"] assms
  by (cases "unit_of_places dp") (auto simp: get_answer_minimum_def dest: unit_of_places_error)

lemma exclusive_maximum_fails:
  assumes "truthy ex" "map_of d ''source'' = Some (JStr ''answers'')"
    and "map_of d ''identifier'' = Some x" and "answer_ranges x = None"
  shows "get_answer_maximum (JDict d) dp ex answer_ranges = Inl TypeError"
  using dangling_value[of d x answer_ranges "JInt MAX_NUMBER"] assms
  by (cases "unit_of_places dp") (auto simp: get_answer_maximum_def dest: unit_of_places_error)

text \<open>
  Whenever the method returns an entry, for a minimum that is not a literal \<open>null\<close>, the
  sentinel stands in \<open>min\<close> exactly for a reference to an answer the table lacks.
\<close>

lemma sentinel_iff_dangling:
  assumes run: "get_numeric_range_values v answer_ranges = Inr e"
    and mv: "bound_value v ''minimum'' (JDict []) = Inr min_value" "min_value \<noteq> JNull"
  shows "re_min e = JNull \<longleftrightarrow>
           (\<exists>d x. min_value = JDict d \<and> map_of d ''source'' = Some (JStr ''answers'')
                 \<and> map_of d ''identifier'' = Some x \<and> answer_ranges x = None)"
proof -
  from run mv(1) obtain exclusive dp where
    mn: "get_answer_minimum min_value dp exclusive answer_ranges = Inr (re_min e)"
    by (auto simp: get_numeric_range_values_def bindE_eq_Inr)
  show ?thesis
  proof (cases min_value)
    case (JDict d)
    show ?thesis
      using mn JDict
      by (auto simp: get_answer_minimum_def get_numeric_value_def bindE_eq_Inr table_get_def
          add_float_def split: if_splits option.splits)
  qed (use mn mv(2) in \<open>auto simp: get_answer_minimum_def get_numeric_value_def bindE_eq_Inr
          add_float_def split: if_splits option.splits\<close>)
qed

text \<open>
  Claim C1. The entry \<open>get_numeric_range_values\<close> produces is to hold the sentinel in \<open>min\<close>
  exactly when the minimum refers to an answer that the table lacks. For the answer \<open>b\<close>,
  whose minimum refers to \<open>x\<close>, and the empty table, the method does so when \<open>exclusive\<close>
  is false; when \<open>exclusive\<close> is true it produces no entry and raises \<open>TypeError\<close>, because
  the step of one unit is added to the sentinel.
\<close>

theorem sentinel_lost_when_exclusive:
  "get_numeric_range_values (AnswerValidator (referring_answer True) JNull JNull JNull) Map.empty
     = Inl TypeError
   \<and> get_numeric_range_values (AnswerValidator (referring_answer False) JNull JNull JNull) Map.empty
     = Inr referring_entry"
  by code_simp



text \<open>
  Claim C9. For an answer with \<open>exclusive\<close> set whose minimum or maximum refers, with source
  \<open>answers\<close>, to an identifier that the table lacks, \<open>get_numeric_range_values\<close> returns no
  entry: it fails.
\<close>

theorem get_numeric_range_values_not_total:
  assumes ex: "py_get (answer v) ''exclusive'' (JBool False) = Inr ex" "truthy ex"
    and b: "bound_value v ''minimum'' (JDict []) = Inr (JDict d)
          \<or> bound_value v ''maximum'' (JDict []) = Inr (JDict d)"
    and d: "map_of d ''source'' = Some (JStr ''answers'')" "map_of d ''identifier'' = Some x"
    and absent: "answer_ranges x = None"
  shows "\<exists>e. get_numeric_range_values v answer_ranges = Inl e"
proof (cases "get_numeric_range_values v answer_ranges")
  case (Inl e)
  then show ?thesis by blast
next
  case (Inr entry)
  then obtain min_value max_value dp mn mx where
    mv: "bound_value v ''minimum'' (JDict []) = Inr min_value"
    and xv: "bound_value v ''maximum'' (JDict []) = Inr max_value"
    and mn: "get_answer_minimum min_value dp ex answer_ranges = Inr mn"
    and mx: "get_answer_maximum max_value dp ex answer_ranges = Inr mx"
    using ex(1) by (auto simp: get_numeric_range_values_def bindE_eq_Inr)
  from b show ?thesis
  proof
    assume "bound_value v ''minimum'' (JDict []) = Inr (JDict d)"
    with mv have "min_value = JDict d" by simp
    with mn exclusive_minimum_fails[of ex d x answer_ranges dp] ex(2) d absent
    show ?thesis by simp
  next
    assume "bound_value v ''maximum'' (JDict []) = Inr (JDict d)"
    with xv have "max_value = JDict d" by simp
    with mx exclusive_maximum_fails[of ex d x answer_ranges dp] ex(2) d absent
    show ?thesis by simp
  qed
qed

theorem get_numeric_range_values_not_total_witness:
  "\<exists>e. get_numeric_range_values (AnswerValidator (capped_answer True) JNull JNull JNull) Map.empty = Inl e"
  using get_numeric_range_values_not_total[of "AnswerValidator (capped_answer True) JNull JNull JNull"
      "JBool True" "[(''source'', JStr ''answers''), (''identifier'', JStr ''y'')]"
      "JStr ''y''" Map.empty]
  by (simp add: AnswerValidator_def capped_answer_def bound_value_def)

section \<open>Checks against the table of ranges\<close>

lemma py_item_get: "py_item a k = Inr x \<Longrightarrow> py_get a k d = Inr x"
  by (cases a) (auto split: option.splits)

text \<open>
  Claim C2. When the table's entry of the answer holds the sentinel in \<open>min\<close> (or, \<open>min\<close>
  being resolved, in \<open>max\<close>), \<open>validate_numeric_answer_types\<close> returns with exactly one more
  error, which names the identifier the bound refers to, and runs neither the range check
  nor the check of decimal places; when neither bound is the sentinel it is the range
  check followed by the check of decimal places.
\<close>

theorem dangling_reference_short_circuits:
  assumes aid: "py_item (answer v) ''id'' = Inr aid" "hashable aid"
    and entry: "answer_ranges aid = Some entry"
  shows "(re_min entry = JNull \<and> bound_identifier v ''minimum'' = Inr x
          \<longrightarrow> validate_numeric_answer_types v answer_ranges
              = Inr (v\<lparr>errors := errors v @ [dangling_minimum_error x aid]\<rparr>))
       \<and> (re_min entry \<noteq> JNull \<and> re_max entry = JNull \<and> bound_identifier v ''maximum'' = Inr x
          \<longrightarrow> validate_numeric_answer_types v answer_ranges
              = Inr (v\<lparr>errors := errors v @ [dangling_maximum_error x aid]\<rparr>))
       \<and> (re_min entry \<noteq> JNull \<and> re_max entry \<noteq> JNull
          \<longrightarrow> validate_numeric_answer_types v answer_ranges
              = bindE (validate_numeric_range v answer_ranges) (\<lambda>v2.
                  validate_referred_numeric_answer_decimals v2 answer_ranges))"
  using assms py_item_get[OF aid(1), of JNull]
  by (simp add: validate_numeric_answer_types_def validate_referred_numeric_answer_def
      table_item_def add_error_def dangling_minimum_error_def dangling_maximum_error_def)

theorem dangling_reference_short_circuits_witness:
  "validate_numeric_answer_types (AnswerValidator (referring_answer False) JNull JNull JNull)
       [JStr ''b'' \<mapsto> referring_entry]
     = Inr ((AnswerValidator (referring_answer False) JNull JNull JNull)
            \<lparr>errors := [dangling_minimum_error (JStr ''x'') (JStr ''b'')]\<rparr>)
   \<and> validate_numeric_answer_types (AnswerValidator (capped_answer False) JNull JNull JNull)
       [JStr ''c'' \<mapsto> capped_entry]
     = Inr ((AnswerValidator (capped_answer False) JNull JNull JNull)
            \<lparr>errors := [dangling_maximum_error (JStr ''y'') (JStr ''c'')]\<rparr>)
   \<and> validate_numeric_answer_types (AnswerValidator (referring_answer False) JNull JNull JNull)
       [JStr ''b'' \<mapsto> resolved_entry, JStr ''x'' \<mapsto> fine_entry]
     = Inr ((AnswerValidator (referring_answer False) JNull JNull JNull)
            \<lparr>errors := [precision_error (JStr ''x'') (JStr ''b'')]\<rparr>)"
proof -
  let ?v = "AnswerValidator (referring_answer False) JNull JNull JNull"
  let ?w = "AnswerValidator (capped_answer False) JNull JNull JNull"
  have v: "py_item (answer ?v) ''id'' = Inr (JStr ''b'')" "bound_identifier ?v ''minimum'' = Inr (JStr ''x'')"
    "errors ?v = []"
    by (simp_all add: AnswerValidator_def referring_answer_def bound_identifier_def)
  have w: "py_item (answer ?w) ''id'' = Inr (JStr ''c'')" "bound_identifier ?w ''maximum'' = Inr (JStr ''y'')"
    "errors ?w = []"
    by (simp_all add: AnswerValidator_def capped_answer_def bound_identifier_def)
  show ?thesis
    using dangling_reference_short_circuits[of ?v "JStr ''b''" "[JStr ''b'' \<mapsto> referring_entry]"
        referring_entry "JStr ''x''"]
      dangling_reference_short_circuits[of ?w "JStr ''c''" "[JStr ''c'' \<mapsto> capped_entry]"
        capped_entry "JStr ''y''"]
      dangling_reference_short_circuits[of ?v "JStr ''b''"
        "[JStr ''b'' \<mapsto> resolved_entry, JStr ''x'' \<mapsto> fine_entry]" resolved_entry]
      v w
    by (simp add: referring_entry_def capped_entry_def resolved_entry_def fine_entry_def
        validate_numeric_range_def validate_referred_numeric_answer_decimals_def
        referred_decimals_check_def table_item_def add_error_def precision_error_def
        MAX_NUMBER_def AnswerValidator_def referring_answer_def)
qed

section \<open>What \<open>validate\<close> records\<close>

text \<open>
  Every error a run of \<open>validate\<close> adds carries a constant message: no error built by
  \<open>validate_duplicate_options\<close>, \<open>validate_labels_and_values_match\<close> or
  \<open>validate_routing_on_answer_options\<close>, whose messages are formatted, is ever added.
\<close>

lemma adds_constant_iff:
  "adds_constant v v' \<longleftrightarrow> (\<exists>es. errors v' = errors v @ es \<and> list_all constant_message es)"
proof
  assume "adds_constant v v'"
  then have t: "take (length (errors v)) (errors v') = errors v"
    and "list_all constant_message (drop (length (errors v)) (errors v'))"
    by (simp_all add: adds_constant_def)
  moreover have "errors v' = errors v @ drop (length (errors v)) (errors v')"
    using append_take_drop_id[of "length (errors v)" "errors v'"] t by simp
  ultimately have "errors v' = errors v @ drop (length (errors v)) (errors v')"
    and "list_all constant_message (drop (length (errors v)) (errors v'))"
    by simp_all
  then show "\<exists>es. errors v' = errors v @ es \<and> list_all constant_message es"
    by blast
next
  assume "\<exists>es. errors v' = errors v @ es \<and> list_all constant_message es"
  then show "adds_constant v v'"
    by (auto simp: adds_constant_def)
qed

lemma adds_constant_refl [simp]: "adds_constant v v"
  by (simp add: adds_constant_def)

lemma adds_constant_trans: "adds_constant v v1 \<Longrightarrow> adds_constant v1 v2 \<Longrightarrow> adds_constant v v2"
  by (auto simp: adds_constant_iff)

lemma add_error_constant:
  "add_error v (Text t) c = Inr v' \<Longrightarrow> adds_constant v v'"
  by (auto simp: add_error_def bindE_eq_Inr adds_constant_iff constant_message_def)

lemmas message_defs = DECIMAL_PLACES_UNDEFINED_def DECIMAL_PLACES_TOO_LONG_def
  INVALID_OFFSET_DATE_def INVALID_SUGGESTION_URL_def LIST_NAME_MISSING_def BLOCK_ID_MISSING_def
  DEFAULT_ON_MANDATORY_def MINIMUM_LESS_THAN_LIMIT_def MAXIMUM_GREATER_THAN_LIMIT_def

lemma answer_action_step_constant:
  assumes "answer_action_step v opt = Inr v'"
  shows "adds_constant v v'"
  using assms unfolding answer_action_step_def message_defs
  by (auto simp: bindE_eq_Inr split: if_splits
      dest!: add_error_constant intro: adds_constant_trans)

lemma answer_actions_loop_constant:
  "answer_actions_loop v opts = Inr v' \<Longrightarrow> adds_constant v v'"
proof (induction opts arbitrary: v)
  case Nil
  then show ?case by simp
next
  case (Cons opt rest)
  then obtain v1 where "answer_action_step v opt = Inr v1" "answer_actions_loop v1 rest = Inr v'"
    by (auto simp: bindE_eq_Inr)
  with Cons.IH[of v1] answer_action_step_constant[of v opt v1] show ?case
    by (blast intro: adds_constant_trans)
qed

lemma numeric_checks_constant:
  "validate_numeric_default v = Inr v' \<Longrightarrow> adds_constant v v'"
  "validate_numeric_answer_value v = Inr v' \<Longrightarrow> adds_constant v v'"
  "validate_numeric_answer_decimals v = Inr v' \<Longrightarrow> adds_constant v v'"
  unfolding validate_numeric_default_def validate_numeric_answer_value_def
    validate_numeric_answer_decimals_def message_defs
  by (auto simp: bindE_eq_Inr split: if_splits
      dest!: add_error_constant intro: adds_constant_trans)

lemma validate_adds_constant:
  assumes "validate rt v = Inr v'"
  shows "adds_constant v v'"
proof -
  from assms obtain v1 places_ok v2 offset_ok v3 url_bad v4 t where
    v1: "validate_answer_actions v = Inr v1"
    and v2: "(if \<not> places_ok then add_error v1 DECIMAL_PLACES_UNDEFINED [] else Inr v1) = Inr v2"
    and v3: "(if \<not> offset_ok then add_error v2 INVALID_OFFSET_DATE [] else Inr v2) = Inr v3"
    and v4: "(if url_bad then add_error v3 INVALID_SUGGESTION_URL [] else Inr v3) = Inr v4"
    and fin: "(if list_ex (\<lambda>y. py_eq y t) [JStr ''Number'', JStr ''Currency'', JStr ''Percentage'']
       then bindE (validate_numeric_default v4) (\<lambda>v5.
            bindE (validate_numeric_answer_value v5) (\<lambda>v6. validate_numeric_answer_decimals v6))
       else Inr v4) = Inr v'"
    unfolding validate_def bindE_eq_Inr by blast
  have a1: "adds_constant v v1"
    using v1 by (auto simp: validate_answer_actions_def bindE_eq_Inr dest: answer_actions_loop_constant)
  have a2: "adds_constant v1 v2"
    using v2 by (auto simp: message_defs split: if_splits dest!: add_error_constant)
  have a3: "adds_constant v2 v3"
    using v3 by (auto simp: message_defs split: if_splits dest!: add_error_constant)
  have a4: "adds_constant v3 v4"
    using v4 by (auto simp: message_defs split: if_splits dest!: add_error_constant)
  have a5: "adds_constant v4 v'"
    using fin by (auto simp: bindE_eq_Inr split: if_splits
        dest!: numeric_checks_constant intro: adds_constant_trans)
  from a1 a2 a3 a4 a5 show ?thesis
    by (blast intro: adds_constant_trans)
qed

text \<open>
  Claim C5. For an answer whose options hold the value \<open>a\<close> twice,
  \<open>validate_duplicate_options\<close> finds the duplicate once, but \<open>validate\<close>, which calls it,
  drops the list it returns: the errors of the validator stay empty.
\<close>

theorem duplicate_value_not_recorded:
  "validate_duplicate_options (AnswerValidator twin_values_answer JNull JNull JNull)
     = Inr [Format ''Duplicate value found - {}'' [JStr ''a'']]
   \<and> validate rt (AnswerValidator twin_values_answer JNull JNull JNull)
     = Inr (AnswerValidator twin_values_answer JNull JNull JNull)
   \<and> errors (AnswerValidator twin_values_answer JNull JNull JNull) = []"
  by code_simp

text \<open>
  Claim C6. For the answer with options \<open>Yes\<close> and \<open>No\<close>, each routed by a \<open>when\<close> clause,
  \<open>validate_routing_on_answer_options\<close> returns no error when the answer is mandatory and
  the one error "Default route not defined" when it is not; \<open>validate\<close>, which calls it,
  drops the list it returns, so in both cases the errors of the validator stay empty.
\<close>

theorem default_route_error_not_recorded:
  "validate_routing_on_answer_options (AnswerValidator (routed_answer True) routing_block JNull JNull)
     = Inr []
   \<and> validate_routing_on_answer_options (AnswerValidator (routed_answer False) routing_block JNull JNull)
     = Inr [Format ''Default route not defined for optional question [{}]'' [JStr ''a1'']]
   \<and> validate rt (AnswerValidator (routed_answer False) routing_block JNull JNull)
     = Inr (AnswerValidator (routed_answer False) routing_block JNull JNull)
   \<and> errors (AnswerValidator (routed_answer False) routing_block JNull JNull) = []"
  by code_simp

section \<open>The ids of a document and the kept generators\<close>

text \<open>
  Claim C3. \<open>id_paths\<close> is to leave out every id under \<open>routing_rules\<close>, \<open>skip_conditions\<close>
  or \<open>when\<close> and every id of an answer of a question variant of an add, edit or remove
  block. For the list collector document it leaves out the id under \<open>when\<close> only: the id
  of the \<open>goto\<close> of the routing rule and the id of the answer \<open>first-name\<close> of the question
  variant of the \<open>add_block\<close> are yielded, and both reach \<open>ids\<close>.
\<close>

theorem references_reach_ids:
  "fst (id_paths collector_schema)
     = [(''sections.[0]'', JStr ''s0''),
        (''sections.[0].groups.[0]'', JStr ''g0''),
        (''sections.[0].groups.[0].blocks.[0]'', JStr ''b0''),
        (''sections.[0].groups.[0].blocks.[0].routing_rules.[0].goto'', JStr ''b1''),
        (''sections.[0].groups.[0].blocks.[0].add_block'', JStr ''add-person''),
        (''sections.[0].groups.[0].blocks.[0].add_block.question_variants.[0].question'',
         JStr ''q-add''),
        (''sections.[0].groups.[0].blocks.[0].add_block.question_variants.[0].question.answers.[0]'',
         JStr ''first-name'')]
   \<and> bindE (ids collector_schema) (\<lambda>(all_ids, s). Inr all_ids)
     = Inr [JStr ''b0'', JStr ''b1'', JStr ''add-person'', JStr ''q-add'', JStr ''first-name'',
            JStr ''s0'', JStr ''g0'']"
  by code_simp

text \<open>Once a loop has run over one of the two properties, the next loop sees nothing.\<close>

lemma second_answers_empty:
  assumes "answers s = Inr (xs, s1)"
  shows "answers s1 = Inr ([], s1)"
  using assms by (auto simp: answers_def bindE_eq_Inr split: if_splits)

lemma second_questions_empty:
  assumes "questions_with_context s = Inr (qs, s1)"
  shows "questions_with_context s1 = Inr ([], s1)"
  using assms by (auto simp: questions_with_context_def Let_def bindE_eq_Inr)

text \<open>
  Claim C4. A second loop over \<open>answers\<close> or over \<open>questions_with_context\<close> is to see what
  the first loop saw. On the list collector document the first loop sees the answer
  \<open>first-name\<close> (the question \<open>q-add\<close> with its context); the second loop over the same
  object sees nothing.
\<close>

theorem second_loop_sees_nothing:
  "twice answers collector_schema
     = Inr ([JDict [(''id'', JStr ''first-name''), (''type'', JStr ''TextField''),
                    (''mandatory'', JBool True)]], [])
   \<and> twice questions_with_context collector_schema
     = Inr ([(add_question,
              \<lparr>ctx_section = JStr ''s0'', ctx_block = JStr ''add-person'',
               ctx_group_id = JStr ''g0''\<rparr>)], [])"
  by code_simp

section \<open>Offset dates\<close>









section \<open>Indices read from paths\<close>

declare decimal.simps [simp del]






lemma startswith_Nil [simp]: "startswith s []"
  by (cases s) simp_all

lemma startswith_append: "startswith (key @ rest) key"
  by (induction key) simp_all












end
